theory Spec2Isabelle
  imports Main "HOL-Library.AList" "HOL-Library.Sublist"
begin

section \<open>The request-dispatch layer of \<open>www/coroweb.py\<close>\<close>

text \<open>
  A shallow embedding of \<open>www/coroweb.py\<close>: the parameter classifier
  (\<open>get_required_kw_args\<close> ... \<open>has_request_arg\<close>), the class \<open>RequestHandler\<close> with its
  \<open>__init__\<close> and \<open>__call__\<close>, the decorators \<open>get\<close> and \<open>post\<close>, and \<open>add_route\<close>.

  Conventions.
  \<^item> A Python \<open>str\<close> is a \<open>string\<close>; a Python \<open>dict\<close> with string keys is an association
    list in insertion order, \<open>d[k] = v\<close> is \<open>AList.update k v d\<close> (an existing key keeps
    its position, a new key goes to the end), \<open>k in d\<close> is \<open>k \<in> set (map fst d)\<close> and
    \<open>d[k]\<close> is \<open>map_of d k\<close>.
  \<^item> A \<open>raise\<close> and an early \<open>return\<close> are values: \<open>__call__\<close> ends in \<open>Returned v\<close>
    or in \<open>Raised e\<close>.
  \<^item> What \<open>__call__\<close> does besides returning (the records it hands to \<open>logging\<close> and the
    call of the target function) is the list of events it returns with its result.
  \<^item> The libraries are taken at their word: \<open>web.HTTPBadRequest(msg)\<close> builds the
    bad-request response carrying \<open>msg\<close>, \<open>request.json()\<close> and \<open>request.post()\<close> give the
    decoded body or raise, \<open>request.match_info\<close> is the dict of path variables.
\<close>

subsection \<open>Values, exceptions, requests\<close>

text \<open>
  The Python values the handler sees: what \<open>json.loads\<close> produces, the strings of forms,
  query strings and path variables, the dict built for an \<open>APIError\<close>, and the response
  object \<open>web.HTTPBadRequest\<close>. Numbers are integers; no function of the file reads one.
\<close>

datatype pyval =
    PyNone
  | PyBool bool
  | PyInt int
  | PyStr string
  | PyList "pyval list"
  | PyDict "(string \<times> pyval) list"
  | HTTPBadRequest string

text \<open>
  Modelled from the spec: the class \<open>APIError\<close> is imported from the module \<open>apis\<close>, which
  is not part of the sources at hand. It is "a distinguished error kind carrying a
  machine-readable \<open>error\<close> code, an optional \<open>data\<close> payload, and a human \<open>message\<close>";
  an instance of a subclass is an \<open>APIError\<close> with these three attributes as well.
  The other constructors are the exceptions of Python itself that the file can meet;
  \<open>Exception cls msg\<close> stands for an exception of any other class \<open>cls\<close>.
\<close>

datatype exn =
    APIError pyval pyval pyval
  | ValueError string
  | NameError string
  | TypeError string
  | IndexError string
  | Exception string string

fun is_APIError :: "exn \<Rightarrow> bool" where
  "is_APIError (APIError e d m) = True"
| "is_APIError _ = False"

text \<open>
  The request as the transport hands it over: \<open>http_method\<close> is \<open>request.method\<close>,
  \<open>json\<close> is the outcome of
  \<open>await request.json()\<close>, \<open>post_form\<close> the fields that \<open>await request.post()\<close> yields (a
  multi-dict: a name may occur more than once), \<open>match_info\<close> the path variables.
\<close>

record request =
  http_method :: string
  content_type :: string
  json :: "exn + pyval"
  post_form :: "exn + (string \<times> pyval) list"
  query_string :: string
  match_info :: "(string \<times> string) list"

text \<open>A value of the argument bag \<open>kw\<close>: a Python value, or the request object itself.\<close>

datatype arg = Val pyval | Req request

type_synonym kwargs = "(string \<times> arg) list"

datatype result = Returned pyval | Raised exn

datatype event =
    Warning string
  | Info_call_with_args kwargs
  | Call kwargs

subsection \<open>Functions and their signatures\<close>

datatype param_kind =
    POSITIONAL_ONLY
  | POSITIONAL_OR_KEYWORD
  | VAR_POSITIONAL
  | KEYWORD_ONLY
  | VAR_KEYWORD

text \<open>
  One entry of \<open>inspect.signature(fn).parameters\<close>; \<open>param_default = None\<close> is
  \<open>inspect.Parameter.empty\<close>.
\<close>

record param =
  param_name :: string
  param_kind :: param_kind
  param_default :: "pyval option"

text \<open>
  A function object: its \<open>__name__\<close>, its signature, what calling it with keyword
  arguments \<open>fn(**kw)\<close> does (return a value or raise; an argument bag that does not fit
  the signature is Python's \<open>TypeError\<close>, raised by the call), and the two attributes
  \<open>__method__\<close> and \<open>__route__\<close> that the decorators set.
\<close>

record pyfunc =
  fn_name :: string
  parameters :: "param list"
  fn_call :: "kwargs \<Rightarrow> exn + pyval"
  fn_method :: "string option"
  fn_route :: "string option"

text \<open>
  The decorators wrap the function with \<open>functools.wraps\<close>, which keeps name and
  signature, and tag the wrapper.
\<close>

definition get :: "string \<Rightarrow> pyfunc \<Rightarrow> pyfunc" where
  "get path func = func\<lparr>fn_method := Some ''GET'', fn_route := Some path\<rparr>"

definition post :: "string \<Rightarrow> pyfunc \<Rightarrow> pyfunc" where
  "post path func = func\<lparr>fn_method := Some ''POST'', fn_route := Some path\<rparr>"

subsection \<open>The parameter classifier\<close>

definition get_required_kw_args :: "pyfunc \<Rightarrow> string list" where
  "get_required_kw_args fn =
     map param_name
       (filter (\<lambda>p. param_kind p = KEYWORD_ONLY \<and> param_default p = None) (parameters fn))"

definition get_named_kw_args :: "pyfunc \<Rightarrow> string list" where
  "get_named_kw_args fn =
     map param_name (filter (\<lambda>p. param_kind p = KEYWORD_ONLY) (parameters fn))"

text \<open>The next two return \<open>True\<close> or fall off the end (\<open>None\<close>, which is false).\<close>

definition has_named_kw_args :: "pyfunc \<Rightarrow> bool" where
  "has_named_kw_args fn = list_ex (\<lambda>p. param_kind p = KEYWORD_ONLY) (parameters fn)"

definition has_var_kw_arg :: "pyfunc \<Rightarrow> bool" where
  "has_var_kw_arg fn = list_ex (\<lambda>p. param_kind p = VAR_KEYWORD) (parameters fn)"

text \<open>
  The loop of \<open>has_request_arg\<close>, with the flag \<open>found\<close> as accumulator. The \<open>raise\<close>
  statement builds its message from \<open>fn.__name__\<close> and \<open>str(sig)\<close>; no name \<open>sig\<close> is
  bound in the function or the module, so evaluating the message raises \<open>NameError\<close>
  before the \<open>ValueError\<close> is constructed.
\<close>

fun has_request_arg_loop :: "param list \<Rightarrow> bool \<Rightarrow> exn + bool" where
  "has_request_arg_loop [] found = Inr found"
| "has_request_arg_loop (p # ps) found =
     (if param_name p = ''request'' then has_request_arg_loop ps True
      else if found \<and> (param_kind p \<noteq> VAR_POSITIONAL \<and> param_kind p \<noteq> KEYWORD_ONLY
                        \<and> param_kind p \<noteq> VAR_KEYWORD)
      then Inl (NameError ''sig'')
      else has_request_arg_loop ps found)"

definition has_request_arg :: "pyfunc \<Rightarrow> exn + bool" where
  "has_request_arg fn = has_request_arg_loop (parameters fn) False"

subsection \<open>The class \<open>RequestHandler\<close>: construction\<close>

text \<open>
  The fields \<open>_func\<close>, \<open>_has_request_arg\<close>, ... of the class (the field \<open>_app\<close> is stored
  and never read).
\<close>

record RequestHandler =
  func :: pyfunc
  hrequest_arg :: bool
  hvar_kw_arg :: bool
  hnamed_kw_args :: bool
  named_kw_args :: "string list"
  required_kw_args :: "string list"

definition RequestHandler_init :: "pyfunc \<Rightarrow> exn + RequestHandler" where
  "RequestHandler_init fn =
     (case has_request_arg fn of
        Inl e \<Rightarrow> Inl e
      | Inr found \<Rightarrow>
          Inr \<lparr> func = fn,
                hrequest_arg = found,
                hvar_kw_arg = has_var_kw_arg fn,
                hnamed_kw_args = has_named_kw_args fn,
                named_kw_args = get_named_kw_args fn,
                required_kw_args = get_required_kw_args fn \<rparr>)"

text \<open>
  \<open>add_route\<close>: the router is the list of its routes (HTTP method, path, handler). A function
  that is no coroutine is wrapped by \<open>asyncio.coroutine\<close>, which keeps its signature.
\<close>

type_synonym router = "(string \<times> string \<times> RequestHandler) list"

definition add_route :: "router \<Rightarrow> pyfunc \<Rightarrow> exn + router" where
  "add_route app fn =
     (case (fn_route fn, fn_method fn) of
        (Some path, Some meth) \<Rightarrow>
          (case RequestHandler_init fn of
             Inl e \<Rightarrow> Inl e
           | Inr h \<Rightarrow> Inr (app @ [(meth, path, h)]))
      | _ \<Rightarrow> Inl (ValueError (''@get or @post not defined in '' @ fn_name fn @ ''.'')))"

subsection \<open>Library functions called by \<open>__call__\<close>\<close>

text \<open>
  \<open>str.lower\<close> and \<open>str.startswith\<close>, on the ASCII letters a content type is made of.
\<close>

definition lower_char :: "char \<Rightarrow> char" where
  "lower_char c =
     (if (65::nat) \<le> of_char c \<and> of_char c \<le> (90::nat)
      then char_of (of_char c + (32::nat)) else c)"

definition lower :: "string \<Rightarrow> string" where
  "lower s = map lower_char s"

definition startswith :: "string \<Rightarrow> string \<Rightarrow> bool" where
  "startswith s p = prefix p s"

text \<open>
  \<open>dict(**m)\<close>: the keys of the mapping \<open>m\<close> become keyword arguments, and a key that
  comes twice is a \<open>TypeError\<close>. A dict has no key twice; a multi-dict can.
\<close>

definition dict_kwargs :: "(string \<times> 'v) list \<Rightarrow> exn + (string \<times> 'v) list" where
  "dict_kwargs m =
     (if distinct (map fst m) then Inr m
      else Inl (TypeError ''dict() got multiple values for keyword argument''))"

text \<open>\<open>s.split(sep)\<close> and \<open>s.split(sep, 1)\<close> for a separator of one character.\<close>

fun split :: "char \<Rightarrow> string \<Rightarrow> string list" where
  "split sep [] = [[]]"
| "split sep (c # cs) =
     (if c = sep then [] # split sep cs
      else (case split sep cs of
              [] \<Rightarrow> [[c]]
            | w # ws \<Rightarrow> (c # w) # ws))"

fun split1 :: "char \<Rightarrow> string \<Rightarrow> string list" where
  "split1 sep [] = [[]]"
| "split1 sep (c # cs) =
     (if c = sep then [[], cs]
      else (case split1 sep cs of
              [] \<Rightarrow> [[c]]
            | w # ws \<Rightarrow> (c # w) # ws))"

text \<open>
  Strings are sequences of bytes here: a Python \<open>str\<close> is its UTF-8 encoding.

  \<open>urllib.parse.unquote_to_bytes\<close>: \<open>%XX\<close> with two hexadecimal digits becomes the byte
  \<open>XX\<close>, any other \<open>%\<close> stays.
\<close>

definition hexdig :: "char \<Rightarrow> nat option" where
  "hexdig c = map_of
     [(CHR ''0'', 0), (CHR ''1'', 1), (CHR ''2'', 2), (CHR ''3'', 3), (CHR ''4'', 4),
      (CHR ''5'', 5), (CHR ''6'', 6), (CHR ''7'', 7), (CHR ''8'', 8), (CHR ''9'', 9),
      (CHR ''A'', 10), (CHR ''B'', 11), (CHR ''C'', 12), (CHR ''D'', 13), (CHR ''E'', 14),
      (CHR ''F'', 15), (CHR ''a'', 10), (CHR ''b'', 11), (CHR ''c'', 12), (CHR ''d'', 13),
      (CHR ''e'', 14), (CHR ''f'', 15)] c"

fun unquote_to_bytes :: "string \<Rightarrow> string" where
  "unquote_to_bytes (c # a # b # cs) =
     (if c = CHR ''%'' then
        (case (hexdig a, hexdig b) of
           (Some x, Some y) \<Rightarrow> char_of (16 * x + y) # unquote_to_bytes cs
         | _ \<Rightarrow> c # unquote_to_bytes (a # b # cs))
      else c # unquote_to_bytes (a # b # cs))"
| "unquote_to_bytes cs = cs"

text \<open>
  \<open>bytes.decode('utf-8', 'replace')\<close>, with the text it gives written in UTF-8 again:
  a well-formed sequence is copied; a byte that can start no sequence, and a lead
  byte with the continuation bytes that fit it when the next byte does not fit or
  the input ends, become the replacement character U+FFFD.
\<close>

definition replacement_character :: string where
  "replacement_character = [char_of (239::nat), char_of (191::nat), char_of (189::nat)]"

definition continuation :: "char \<Rightarrow> bool" where
  "continuation b = ((128::nat) \<le> of_char b \<and> of_char b < (192::nat))"

text \<open>The second byte that fits the lead byte of a sequence of three or four bytes.\<close>

definition second_byte :: "char \<Rightarrow> char \<Rightarrow> bool" where
  "second_byte b b2 =
     (let n = of_char b :: nat; n2 = of_char b2 :: nat in
      if n = 224 then 160 \<le> n2 \<and> n2 < 192
      else if n = 237 then 128 \<le> n2 \<and> n2 < 160
      else if n = 240 then 144 \<le> n2 \<and> n2 < 192
      else if n = 244 then 128 \<le> n2 \<and> n2 < 144
      else 128 \<le> n2 \<and> n2 < 192)"

fun decode_replace :: "string \<Rightarrow> string" where
  "decode_replace [] = []"
| "decode_replace (b # bs) =
     (if of_char b < (128::nat) then b # decode_replace bs
      else if of_char b < (194::nat) then replacement_character @ decode_replace bs
      else if of_char b < (224::nat) then
        (case bs of
           [] \<Rightarrow> replacement_character
         | b2 # bs2 \<Rightarrow>
             if continuation b2 then b # b2 # decode_replace bs2
             else replacement_character @ decode_replace bs)
      else if of_char b < (240::nat) then
        (case bs of
           [] \<Rightarrow> replacement_character
         | b2 # bs2 \<Rightarrow>
             if second_byte b b2 then
               (case bs2 of
                  [] \<Rightarrow> replacement_character
                | b3 # bs3 \<Rightarrow>
                    if continuation b3 then b # b2 # b3 # decode_replace bs3
                    else replacement_character @ decode_replace bs2)
             else replacement_character @ decode_replace bs)
      else if of_char b < (245::nat) then
        (case bs of
           [] \<Rightarrow> replacement_character
         | b2 # bs2 \<Rightarrow>
             if second_byte b b2 then
               (case bs2 of
                  [] \<Rightarrow> replacement_character
                | b3 # bs3 \<Rightarrow>
                    if continuation b3 then
                      (case bs3 of
                         [] \<Rightarrow> replacement_character
                       | b4 # bs4 \<Rightarrow>
                           if continuation b4 then b # b2 # b3 # b4 # decode_replace bs4
                           else replacement_character @ decode_replace bs3)
                    else replacement_character @ decode_replace bs2)
             else replacement_character @ decode_replace bs)
      else replacement_character @ decode_replace bs)"

text \<open>
  \<open>urllib.parse.unquote(string, encoding='utf-8', errors='replace')\<close>: the string is
  cut into its runs of ASCII characters and the characters between them; each ASCII
  run is unquoted to bytes and decoded, the other characters stay.
\<close>

definition is_ascii :: "char \<Rightarrow> bool" where
  "is_ascii c = (of_char c < (128::nat))"

fun ascii_runs :: "string \<Rightarrow> string list" where
  "ascii_runs [] = []"
| "ascii_runs (c # cs) =
     (case ascii_runs cs of
        (d # run) # runs \<Rightarrow>
          (if is_ascii c = is_ascii d then (c # d # run) # runs
           else [c] # (d # run) # runs)
      | _ \<Rightarrow> [[c]])"

definition unquote :: "string \<Rightarrow> string" where
  "unquote s =
     concat (map (\<lambda>run. if list_all is_ascii run then decode_replace (unquote_to_bytes run)
                         else run)
               (ascii_runs s))"

definition replace :: "char \<Rightarrow> char \<Rightarrow> string \<Rightarrow> string" where
  "replace old new s = map (\<lambda>c. if c = old then new else c) s"

text \<open>
  \<open>urllib.parse.parse_qsl(qs, keep_blank_values)\<close> with \<open>strict_parsing=False\<close> and the
  separator \<open>&\<close>: \<open>parse_qsl_field\<close> is the body of its loop for one piece
  \<open>name_value\<close>, giving the pair it appends, if any.
\<close>

definition parse_qsl_field :: "bool \<Rightarrow> string \<Rightarrow> (string \<times> string) list" where
  "parse_qsl_field keep_blank_values name_value =
     (if name_value = [] then []
      else (case split1 (CHR ''='') name_value of
              [n, v] \<Rightarrow>
                (if v \<noteq> [] \<or> keep_blank_values
                 then [(unquote (replace (CHR ''+'') (CHR '' '') n),
                        unquote (replace (CHR ''+'') (CHR '' '') v))]
                 else [])
            | [n] \<Rightarrow>
                (if keep_blank_values
                 then [(unquote (replace (CHR ''+'') (CHR '' '') n), unquote [])]
                 else [])
            | _ \<Rightarrow> []))"

definition parse_qsl :: "string \<Rightarrow> bool \<Rightarrow> (string \<times> string) list" where
  "parse_qsl qs keep_blank_values =
     concat (map (parse_qsl_field keep_blank_values) (split (CHR ''&'') qs))"

text \<open>
  \<open>urllib.parse.parse_qs\<close>: the pairs grouped by name, each name with the list of its
  values in the order they come.
\<close>

fun parse_qs_loop ::
  "(string \<times> string) list \<Rightarrow> (string \<times> string list) list \<Rightarrow> (string \<times> string list) list"
where
  "parse_qs_loop [] parsed_result = parsed_result"
| "parse_qs_loop ((name, v) # pairs) parsed_result =
     parse_qs_loop pairs
       (case map_of parsed_result name of
          Some vs \<Rightarrow> AList.update name (vs @ [v]) parsed_result
        | None \<Rightarrow> AList.update name [v] parsed_result)"

definition parse_qs :: "string \<Rightarrow> bool \<Rightarrow> (string \<times> string list) list" where
  "parse_qs qs keep_blank_values = parse_qs_loop (parse_qsl qs keep_blank_values) []"

subsection \<open>The class \<open>RequestHandler\<close>: \<open>__call__\<close>\<close>

text \<open>
  The POST branch: \<open>Inl\<close> leaves \<open>__call__\<close> (an early \<open>return\<close> or an exception),
  \<open>Inr\<close> is the value of \<open>kw\<close> after the branch.
\<close>

definition post_kw :: "request \<Rightarrow> result + kwargs option" where
  "post_kw request =
     (if content_type request = [] then
        Inl (Returned (HTTPBadRequest ''Missing Content-Type.''))
      else
        (let ct = lower (content_type request) in
         if startswith ct ''application/json'' then
           (case json request of
              Inl e \<Rightarrow> Inl (Raised e)
            | Inr (PyDict params) \<Rightarrow> Inr (Some (map (\<lambda>(k, v). (k, Val v)) params))
            | Inr _ \<Rightarrow> Inl (Returned (HTTPBadRequest ''JSON body must be object.'')))
         else if startswith ct ''application/x-www-form-urlencoded''
                 \<or> startswith ct ''multipart/form-data'' then
           (case post_form request of
              Inl e \<Rightarrow> Inl (Raised e)
            | Inr params \<Rightarrow>
                (case dict_kwargs params of
                   Inl e \<Rightarrow> Inl (Raised e)
                 | Inr d \<Rightarrow> Inr (Some (map (\<lambda>(k, v). (k, Val v)) d))))
         else
           Inl (Returned (HTTPBadRequest
                  (''Unsupported Content-Type: '' @ content_type request)))))"

text \<open>The loop \<open>for k, v in parse.parse_qs(qs, True).items(): kw[k] = v[0]\<close>.\<close>

fun query_loop :: "(string \<times> string list) list \<Rightarrow> kwargs \<Rightarrow> exn + kwargs" where
  "query_loop [] kw = Inr kw"
| "query_loop ((k, v) # items) kw =
     (case v of
        [] \<Rightarrow> Inl (IndexError ''list index out of range'')
      | v0 # _ \<Rightarrow> query_loop items (AList.update k (Val (PyStr v0)) kw))"

definition get_kw :: "request \<Rightarrow> kwargs option \<Rightarrow> result + kwargs option" where
  "get_kw request kw =
     (let qs = query_string request in
      if qs \<noteq> [] then
        (case query_loop (parse_qs qs True) [] of
           Inl e \<Rightarrow> Inl (Raised e)
         | Inr kw' \<Rightarrow> Inr (Some kw'))
      else Inr kw)"

text \<open>Lines 97 to 126: where the argument bag comes from.\<close>

definition source_kw :: "RequestHandler \<Rightarrow> request \<Rightarrow> result + kwargs option" where
  "source_kw self request =
     (if hvar_kw_arg self \<or> hnamed_kw_args self \<or> required_kw_args self \<noteq> [] then
        (case (if http_method request = ''POST'' then post_kw request else Inr None) of
           Inl r \<Rightarrow> Inl r
         | Inr kw \<Rightarrow> (if http_method request = ''GET'' then get_kw request kw else Inr kw))
      else Inr None)"

text \<open>The loop that keeps the named keyword arguments (\<open>remove all unamed kw\<close>).\<close>

fun copy_named :: "string list \<Rightarrow> kwargs \<Rightarrow> kwargs \<Rightarrow> kwargs" where
  "copy_named [] kw copy = copy"
| "copy_named (name # names) kw copy =
     copy_named names kw
       (case map_of kw name of
          Some v \<Rightarrow> AList.update name v copy
        | None \<Rightarrow> copy)"

text \<open>
  The loop over \<open>request.match_info.items()\<close> (\<open>check named arg\<close>), with the warnings
  it logs.
\<close>

fun match_info_loop ::
  "(string \<times> string) list \<Rightarrow> kwargs \<Rightarrow> event list \<Rightarrow> kwargs \<times> event list"
where
  "match_info_loop [] kw log = (kw, log)"
| "match_info_loop ((k, v) # items) kw log =
     match_info_loop items (AList.update k (Val (PyStr v)) kw)
       (if k \<in> set (map fst kw)
        then log @ [Warning (''Duplicate arg name in named arg and kw args: '' @ k)]
        else log)"

text \<open>Lines 132 to 139: the bag that goes on to the overlay of the path variables.\<close>

definition named_kw :: "RequestHandler \<Rightarrow> kwargs \<Rightarrow> kwargs" where
  "named_kw self kw =
     (if \<not> hvar_kw_arg self \<and> named_kw_args self \<noteq> []
      then copy_named (named_kw_args self) kw []
      else kw)"

text \<open>Lines 127 to 144.\<close>

definition merge_kw ::
  "RequestHandler \<Rightarrow> request \<Rightarrow> kwargs option \<Rightarrow> (exn + kwargs) \<times> event list"
where
  "merge_kw self request kw =
     (case kw of
        None \<Rightarrow>
          (dict_kwargs (map (\<lambda>(k, v). (k, Val (PyStr v))) (match_info request)), [])
      | Some kw \<Rightarrow>
          (case match_info_loop (match_info request) (named_kw self kw) [] of
             (kw', log) \<Rightarrow> (Inr kw', log)))"

text \<open>Lines 145 and 146.\<close>

definition request_kw :: "RequestHandler \<Rightarrow> request \<Rightarrow> kwargs \<Rightarrow> kwargs" where
  "request_kw self request kw =
     (if hrequest_arg self then AList.update ''request'' (Req request) kw else kw)"

text \<open>Lines 148 to 151: the first required name that is missing, if any.\<close>

fun required_loop :: "string list \<Rightarrow> kwargs \<Rightarrow> string option" where
  "required_loop [] kw = None"
| "required_loop (name # names) kw =
     (if name \<notin> set (map fst kw) then Some name else required_loop names kw)"

definition check_required :: "RequestHandler \<Rightarrow> kwargs \<Rightarrow> string option" where
  "check_required self kw =
     (if required_kw_args self \<noteq> [] then required_loop (required_kw_args self) kw
      else None)"

text \<open>Lines 153 to 157: the call of the target function and what becomes of it.\<close>

definition invoke :: "RequestHandler \<Rightarrow> kwargs \<Rightarrow> result" where
  "invoke self kw =
     (case fn_call (func self) kw of
        Inr r \<Rightarrow> Returned r
      | Inl (APIError e d m) \<Rightarrow>
          Returned (PyDict [(''error'', e), (''data'', d), (''message'', m)])
      | Inl e \<Rightarrow> Raised e)"

text \<open>
  The argument bag of lines 97 to 146 (\<open>Inl\<close>: \<open>__call__\<close> is left before), with the
  warnings logged on the way.
\<close>

definition build_kw :: "RequestHandler \<Rightarrow> request \<Rightarrow> (result + kwargs) \<times> event list" where
  "build_kw self request =
     (case source_kw self request of
        Inl r \<Rightarrow> (Inl r, [])
      | Inr kw \<Rightarrow>
          (case merge_kw self request kw of
             (Inl e, log) \<Rightarrow> (Inl (Raised e), log)
           | (Inr kw', log) \<Rightarrow> (Inr (request_kw self request kw'), log)))"

definition RequestHandler_call :: "RequestHandler \<Rightarrow> request \<Rightarrow> result \<times> event list" where
  "RequestHandler_call self request =
     (case build_kw self request of
        (Inl r, log) \<Rightarrow> (r, log)
      | (Inr kw, log) \<Rightarrow>
          (case check_required self kw of
             Some name \<Rightarrow> (Returned (HTTPBadRequest (''Missing argumeny: '' @ name)), log)
           | None \<Rightarrow> (invoke self kw, log @ [Info_call_with_args kw, Call kw])))"

subsection \<open>Example functions and requests\<close>

text \<open>Parameters as a \<open>def\<close> statement declares them, and the function it defines.\<close>

definition positional :: "string \<Rightarrow> param" where
  "positional n = \<lparr>param_name = n, param_kind = POSITIONAL_OR_KEYWORD, param_default = None\<rparr>"

definition keyword_only :: "string \<Rightarrow> pyval option \<Rightarrow> param" where
  "keyword_only n d = \<lparr>param_name = n, param_kind = KEYWORD_ONLY, param_default = d\<rparr>"

definition var_positional :: "string \<Rightarrow> param" where
  "var_positional n = \<lparr>param_name = n, param_kind = VAR_POSITIONAL, param_default = None\<rparr>"

definition var_keyword :: "string \<Rightarrow> param" where
  "var_keyword n = \<lparr>param_name = n, param_kind = VAR_KEYWORD, param_default = None\<rparr>"

definition def :: "string \<Rightarrow> param list \<Rightarrow> (kwargs \<Rightarrow> exn + pyval) \<Rightarrow> pyfunc" where
  "def n ps body =
     \<lparr>fn_name = n, parameters = ps, fn_call = body, fn_method = None, fn_route = None\<rparr>"

text \<open>\<open>def show(request, *, name, **kw)\<close> and \<open>def broken(request, id)\<close>.\<close>

definition example_show :: pyfunc where
  "example_show =
     def ''show'' [positional ''request'', keyword_only ''name'' None, var_keyword ''kw'']
       (\<lambda>kw. Inr PyNone)"

definition example_broken :: pyfunc where
  "example_broken =
     def ''broken'' [positional ''request'', positional ''id''] (\<lambda>kw. Inr PyNone)"

text \<open>\<open>def collect(id, request, *args, tag=None, **kw)\<close>.\<close>

definition example_collect :: pyfunc where
  "example_collect =
     def ''collect''
       [positional ''id'', positional ''request'', var_positional ''args'',
        keyword_only ''tag'' (Some PyNone), var_keyword ''kw'']
       (\<lambda>kw. Inr PyNone)"

text \<open>
  \<open>@post('/post/{id}') def f(id, *, title, content=None)\<close> with any body, the handler
  that \<open>RequestHandler(app, f)\<close> builds, and a POST request to \<open>/post/42\<close> with the JSON
  body \<open>{"title": "T"}\<close>.
\<close>

definition example_f :: "(kwargs \<Rightarrow> exn + pyval) \<Rightarrow> pyfunc" where
  "example_f body =
     post ''/post/{id}''
       (def ''f''
          [positional ''id'', keyword_only ''title'' None, keyword_only ''content'' (Some PyNone)]
          body)"

definition example_f_handler :: "(kwargs \<Rightarrow> exn + pyval) \<Rightarrow> RequestHandler" where
  "example_f_handler body =
     \<lparr>func = example_f body, hrequest_arg = False, hvar_kw_arg = False,
      hnamed_kw_args = True, named_kw_args = [''title'', ''content''],
      required_kw_args = [''title'']\<rparr>"

definition example_dispatch :: "exn + (string \<times> pyval) list \<Rightarrow> string \<Rightarrow> request" where
  "example_dispatch form qs =
     \<lparr>http_method = ''POST'', content_type = ''application/json'',
      json = Inr (PyDict [(''title'', PyStr ''T'')]),
      post_form = form, query_string = qs, match_info = [(''id'', ''42'')]\<rparr>"

text \<open>
  A POST request to \<open>/post/42\<close> (or \<open>/update/42\<close>) whose JSON body has a field \<open>id\<close>
  too, and \<open>@post('/update/{id}') def update(id, **kw)\<close> with its handler.
\<close>

definition example_conflict :: request where
  "example_conflict =
     \<lparr>http_method = ''POST'', content_type = ''application/json'',
      json = Inr (PyDict [(''id'', PyStr ''1''), (''title'', PyStr ''T'')]),
      post_form = Inr [], query_string = [], match_info = [(''id'', ''42'')]\<rparr>"

definition example_update :: pyfunc where
  "example_update =
     post ''/update/{id}''
       (def ''update'' [positional ''id'', var_keyword ''kw''] (\<lambda>kw. Inr PyNone))"

definition example_update_handler :: RequestHandler where
  "example_update_handler =
     \<lparr>func = example_update, hrequest_arg = False, hvar_kw_arg = True,
      hnamed_kw_args = False, named_kw_args = [], required_kw_args = []\<rparr>"

text \<open>
  A GET request with the query string \<open>qs\<close> and the path variables \<open>path\<close>, and
  \<open>@get('/hello/{name}') def hello(*, name, greeting='Hi')\<close> with its handler.
\<close>

definition example_get :: "string \<Rightarrow> (string \<times> string) list \<Rightarrow> request" where
  "example_get qs path =
     \<lparr>http_method = ''GET'', content_type = ''application/octet-stream'',
      json = Inr PyNone, post_form = Inr [], query_string = qs, match_info = path\<rparr>"

definition example_hello :: pyfunc where
  "example_hello =
     get ''/hello/{name}''
       (def ''hello''
          [keyword_only ''name'' None, keyword_only ''greeting'' (Some (PyStr ''Hi''))]
          (\<lambda>kw. Inr (PyStr ''hello'')))"

definition example_hello_handler :: RequestHandler where
  "example_hello_handler =
     \<lparr>func = example_hello, hrequest_arg = False, hvar_kw_arg = False,
      hnamed_kw_args = True, named_kw_args = [''name'', ''greeting''],
      required_kw_args = [''name'']\<rparr>"

text \<open>\<open>@get('/search') def search(*, k)\<close> with its handler.\<close>

definition example_search :: pyfunc where
  "example_search =
     get ''/search'' (def ''search'' [keyword_only ''k'' None] (\<lambda>kw. Inr PyNone))"

definition example_search_handler :: RequestHandler where
  "example_search_handler =
     \<lparr>func = example_search, hrequest_arg = False, hvar_kw_arg = False,
      hnamed_kw_args = True, named_kw_args = [''k''], required_kw_args = [''k'']\<rparr>"




text \<open>The handler of \<open>@get('/admin') def admin(): raise e\<close>.\<close>

definition example_raises :: "exn \<Rightarrow> RequestHandler" where
  "example_raises e =
     \<lparr>func = get ''/admin'' (def ''admin'' [] (\<lambda>kw. Inl e)), hrequest_arg = False,
      hvar_kw_arg = False, hnamed_kw_args = False, named_kw_args = [],
      required_kw_args = []\<rparr>"

text \<open>
  \<open>@get('/page') def page(k)\<close> and \<open>@get('/item/{k}') def item(*, k)\<close> with their
  handlers.
\<close>

definition example_page :: pyfunc where
  "example_page = get ''/page'' (def ''page'' [positional ''k''] (\<lambda>kw. Inr PyNone))"

definition example_page_handler :: RequestHandler where
  "example_page_handler =
     \<lparr>func = example_page, hrequest_arg = False, hvar_kw_arg = False,
      hnamed_kw_args = False, named_kw_args = [], required_kw_args = []\<rparr>"

definition example_item :: pyfunc where
  "example_item =
     get ''/item/{k}'' (def ''item'' [keyword_only ''k'' None] (\<lambda>kw. Inr PyNone))"

definition example_item_handler :: RequestHandler where
  "example_item_handler =
     \<lparr>func = example_item, hrequest_arg = False, hvar_kw_arg = False,
      hnamed_kw_args = True, named_kw_args = [''k''], required_kw_args = [''k'']\<rparr>"

section \<open>Properties\<close>

subsection \<open>The position of the \<open>request\<close> parameter\<close>

lemma has_request_arg_loop_found:
  "list_all (\<lambda>p. param_name p = ''request'' \<or> param_kind p = VAR_POSITIONAL
       \<or> param_kind p = KEYWORD_ONLY \<or> param_kind p = VAR_KEYWORD) ps
   \<Longrightarrow> has_request_arg_loop ps True = Inr True"
  by (induction ps) auto

lemma has_request_arg_loop_before:
  "''request'' \<notin> set (map param_name before)
   \<Longrightarrow> has_request_arg_loop (before @ ps) False = has_request_arg_loop ps False"
  by (induction before) auto

lemma has_request_arg_loop_raises:
  "p \<in> set ps \<Longrightarrow> param_name p \<noteq> ''request''
   \<Longrightarrow> param_kind p = POSITIONAL_OR_KEYWORD \<or> param_kind p = POSITIONAL_ONLY
   \<Longrightarrow> has_request_arg_loop ps True = Inl (NameError ''sig'')"
  by (induction ps) auto

text \<open>
  Python rejects a signature that has a name twice, so the names of \<open>parameters fn\<close>
  are distinct; the loop has then seen no \<open>request\<close> before it meets \<open>r\<close>, and meets
  none after.
\<close>

lemma has_request_arg_split:
  assumes "parameters fn = before @ r # after" and "param_name r = ''request''"
    and "distinct (map param_name (parameters fn))"
  shows "has_request_arg fn = has_request_arg_loop after True"
    and "''request'' \<notin> set (map param_name after)"
proof -
  from assms have before: "''request'' \<notin> set (map param_name before)"
    and after: "''request'' \<notin> set (map param_name after)"
    by auto
  show "''request'' \<notin> set (map param_name after)" by (rule after)
  show "has_request_arg fn = has_request_arg_loop after True"
    using assms(1,2) has_request_arg_loop_before [OF before, of "r # after"]
    by (simp add: has_request_arg_def)
qed

text \<open>
  What \<open>has_request_arg\<close> does for a function \<open>fn\<close> with a parameter \<open>r\<close> named
  \<open>request\<close> and the parameters \<open>after\<close> behind it. If every parameter of \<open>after\<close> is
  keyword-only or the catch-all keyword parameter, it returns \<open>True\<close> and the handler
  built by \<open>RequestHandler.__init__\<close> records it. If some parameter of \<open>after\<close> is a
  plain positional one, it raises, and with it \<open>RequestHandler.__init__\<close> and
  \<open>add_route\<close>; what is raised is the \<open>NameError\<close> of the name \<open>sig\<close>.
\<close>

lemma request_arg_ordering:
  assumes "parameters fn = before @ r # after" and "param_name r = ''request''"
    and "distinct (map param_name (parameters fn))"
  shows "(list_all (\<lambda>p. param_kind p = KEYWORD_ONLY \<or> param_kind p = VAR_KEYWORD) after
            \<longrightarrow> has_request_arg fn = Inr True
                \<and> map_sum id hrequest_arg (RequestHandler_init fn) = Inr True)
       \<and> (list_ex (\<lambda>p. param_kind p = POSITIONAL_OR_KEYWORD \<or> param_kind p = POSITIONAL_ONLY)
             after
            \<longrightarrow> has_request_arg fn = Inl (NameError ''sig'')
                \<and> RequestHandler_init fn = Inl (NameError ''sig'')
                \<and> isl (add_route app fn))"
proof (intro conjI impI)
  note split = has_request_arg_split [OF assms]
  {
    assume "list_all (\<lambda>p. param_kind p = KEYWORD_ONLY \<or> param_kind p = VAR_KEYWORD) after"
    then have "list_all (\<lambda>p. param_name p = ''request'' \<or> param_kind p = VAR_POSITIONAL
       \<or> param_kind p = KEYWORD_ONLY \<or> param_kind p = VAR_KEYWORD) after"
      by (auto simp: list_all_iff)
    then show ok: "has_request_arg fn = Inr True"
      using split(1) by (simp add: has_request_arg_loop_found)
    then show "map_sum id hrequest_arg (RequestHandler_init fn) = Inr True"
      by (simp add: RequestHandler_init_def)
  }
  {
    assume "list_ex (\<lambda>p. param_kind p = POSITIONAL_OR_KEYWORD \<or> param_kind p = POSITIONAL_ONLY)
              after"
    then obtain p where p: "p \<in> set after"
      "param_kind p = POSITIONAL_OR_KEYWORD \<or> param_kind p = POSITIONAL_ONLY"
      by (auto simp: list_ex_iff)
    with split(2) have "param_name p \<noteq> ''request''" by (metis image_eqI set_map)
    with p show bad: "has_request_arg fn = Inl (NameError ''sig'')"
      using split(1) has_request_arg_loop_raises by simp
    then show init: "RequestHandler_init fn = Inl (NameError ''sig'')"
      by (simp add: RequestHandler_init_def)
    then show "isl (add_route app fn)"
      by (simp add: add_route_def split: option.splits)
  }
qed

lemma has_request_arg_loop_no_ValueError:
  "has_request_arg_loop ps found \<noteq> Inl (ValueError m)"
  by (induction ps arbitrary: found) auto

lemma has_request_arg_no_ValueError: "has_request_arg fn \<noteq> Inl (ValueError m)"
  by (simp add: has_request_arg_def has_request_arg_loop_no_ValueError)

text \<open>
  Claim C7 asks for a configuration error when a plain positional parameter comes
  behind \<open>request\<close>, and line 82 sets out to raise it: a \<open>ValueError\<close> that names the
  function and its signature. The code misses it. For \<open>def broken(request, id)\<close>,
  tagged \<open>GET /broken/{id}\<close>, the message of the \<open>ValueError\<close> is built from \<open>str(sig)\<close>,
  the name \<open>sig\<close> is bound nowhere, and what leaves \<open>has_request_arg\<close>,
  \<open>RequestHandler.__init__\<close> and \<open>add_route\<close> is a \<open>NameError\<close>; by
  \<open>has_request_arg_no_ValueError\<close> no function at all is rejected with the
  \<open>ValueError\<close>.
\<close>

theorem request_arg_error_is_NameError:
  "has_request_arg example_broken = Inl (NameError ''sig'')
   \<and> RequestHandler_init (get ''/broken/{id}'' example_broken) = Inl (NameError ''sig'')
   \<and> add_route [] (get ''/broken/{id}'' example_broken) = Inl (NameError ''sig'')"
  by (simp add: add_route_def RequestHandler_init_def has_request_arg_def example_broken_def
      def_def get_def positional_def)

text \<open>
  Claim C9. A variadic positional parameter (\<open>*args\<close>) behind \<open>request\<close> is accepted:
  when every parameter behind \<open>request\<close> is variadic positional, keyword-only or the
  catch-all keyword parameter, \<open>has_request_arg\<close> returns \<open>True\<close> and
  \<open>RequestHandler.__init__\<close> builds the handler.
\<close>

theorem var_positional_after_request:
  assumes "parameters fn = before @ r # after" and "param_name r = ''request''"
    and "distinct (map param_name (parameters fn))"
    and "list_all (\<lambda>p. param_kind p = VAR_POSITIONAL \<or> param_kind p = KEYWORD_ONLY
                        \<or> param_kind p = VAR_KEYWORD) after"
  shows "has_request_arg fn = Inr True
       \<and> RequestHandler_init fn =
           Inr \<lparr>func = fn, hrequest_arg = True, hvar_kw_arg = has_var_kw_arg fn,
                hnamed_kw_args = has_named_kw_args fn,
                named_kw_args = get_named_kw_args fn,
                required_kw_args = get_required_kw_args fn\<rparr>"
proof -
  from assms(4) have "list_all (\<lambda>p. param_name p = ''request'' \<or> param_kind p = VAR_POSITIONAL
       \<or> param_kind p = KEYWORD_ONLY \<or> param_kind p = VAR_KEYWORD) after"
    by (auto simp: list_all_iff)
  then have "has_request_arg fn = Inr True"
    using has_request_arg_split(1) [OF assms(1,2,3)] by (simp add: has_request_arg_loop_found)
  then show ?thesis by (simp add: RequestHandler_init_def)
qed

theorem var_positional_after_request_witness:
  "has_request_arg example_collect = Inr True
   \<and> isl (RequestHandler_init example_collect) = False"
proof -
  have collect:
    "parameters example_collect
       = [positional ''id''] @ positional ''request''
           # [var_positional ''args'', keyword_only ''tag'' (Some PyNone), var_keyword ''kw'']"
    "param_name (positional ''request'') = ''request''"
    "distinct (map param_name (parameters example_collect))"
    "list_all (\<lambda>p. param_kind p = VAR_POSITIONAL \<or> param_kind p = KEYWORD_ONLY
                    \<or> param_kind p = VAR_KEYWORD)
       [var_positional ''args'', keyword_only ''tag'' (Some PyNone), var_keyword ''kw'']"
    by (simp_all add: example_collect_def def_def positional_def keyword_only_def
          var_keyword_def var_positional_def)
  from var_positional_after_request [OF collect] show ?thesis by simp
qed

subsection \<open>Building the argument bag\<close>

lemma map_of_copy_named:
  "map_of (copy_named names kw copy) k =
     (if k \<in> set names then (case map_of kw k of Some v \<Rightarrow> Some v | None \<Rightarrow> map_of copy k)
      else map_of copy k)"
  by (induction names arbitrary: copy) (auto simp: update_conv' split: option.splits)

lemma keys_copy_named:
  "fst ` set (copy_named names kw []) = set names \<inter> fst ` set kw"
proof -
  have "dom (map_of (copy_named names kw [])) = set names \<inter> dom (map_of kw)"
    by (auto simp: map_of_copy_named dom_def split: option.splits if_splits)
  then show ?thesis by (simp add: dom_map_of_conv_image_fst)
qed

lemma keys_match_info_loop:
  "fst ` set (fst (match_info_loop items kw log)) = fst ` set kw \<union> fst ` set items"
proof (induction items arbitrary: kw log)
  case Nil
  then show ?case by simp
next
  case (Cons a items)
  obtain k v where a: "a = (k, v)" by (cases a)
  have "fst ` set (fst (match_info_loop (a # items) kw log))
          = fst ` set (AList.update k (Val (PyStr v)) kw) \<union> fst ` set items"
    by (simp add: a Cons.IH)
  also have "\<dots> = fst ` set kw \<union> fst ` set (a # items)"
    by (simp add: dom_update a)
  finally show ?case .
qed

lemma map_of_match_info_loop:
  "distinct (map fst items) \<Longrightarrow>
   map_of (fst (match_info_loop items kw log)) k =
     (case map_of items k of Some v \<Rightarrow> Some (Val (PyStr v)) | None \<Rightarrow> map_of kw k)"
proof (induction items arbitrary: kw log)
  case Nil
  then show ?case by simp
next
  case (Cons a items)
  obtain k' v' where a: "a = (k', v')" by (cases a)
  from Cons.prems a have notin: "map_of items k' = None"
    by (simp add: map_of_eq_None_iff)
  from Cons.prems have "distinct (map fst items)" by simp
  from Cons.IH [OF this] show ?case using notin
    by (auto simp: a update_conv' split: option.splits)
qed

lemma log_match_info_loop:
  "distinct (map fst items) \<Longrightarrow>
   snd (match_info_loop items kw log) =
     log @ map (\<lambda>k. Warning (''Duplicate arg name in named arg and kw args: '' @ k))
             (filter (\<lambda>k. k \<in> fst ` set kw) (map fst items))"
proof (induction items arbitrary: kw log)
  case Nil
  then show ?case by simp
next
  case (Cons a items)
  obtain k' v' where a: "a = (k', v')" by (cases a)
  from Cons.prems a have notin: "k' \<notin> fst ` set items" and d: "distinct (map fst items)"
    by auto
  have same: "filter (\<lambda>k. k \<in> fst ` set (AList.update k' (Val (PyStr v')) kw)) (map fst items)
            = filter (\<lambda>k. k \<in> fst ` set kw) (map fst items)"
    using notin by (intro filter_cong) (auto simp: dom_update)
  show ?case
    using Cons.IH [OF d, of "AList.update k' (Val (PyStr v')) kw"] same
    by (simp add: a)
qed

lemma map_of_named_kw:
  "map_of (named_kw h kw) k =
     (if hvar_kw_arg h \<or> named_kw_args h = [] \<or> k \<in> set (named_kw_args h)
      then map_of kw k else None)"
  by (auto simp: named_kw_def map_of_copy_named split: option.splits)

lemma keys_named_kw:
  "k \<in> fst ` set (named_kw h kw) \<longleftrightarrow>
     k \<in> fst ` set kw \<and> (hvar_kw_arg h \<or> named_kw_args h = [] \<or> k \<in> set (named_kw_args h))"
proof -
  have "k \<in> fst ` set (named_kw h kw) \<longleftrightarrow> map_of (named_kw h kw) k \<noteq> None"
    by (simp add: map_of_eq_None_iff)
  also have "\<dots> \<longleftrightarrow> map_of kw k \<noteq> None
       \<and> (hvar_kw_arg h \<or> named_kw_args h = [] \<or> k \<in> set (named_kw_args h))"
    by (simp add: map_of_named_kw)
  also have "\<dots> \<longleftrightarrow> k \<in> fst ` set kw
       \<and> (hvar_kw_arg h \<or> named_kw_args h = [] \<or> k \<in> set (named_kw_args h))"
    by (simp add: map_of_eq_None_iff)
  finally show ?thesis .
qed

lemma map_of_request_kw:
  "map_of (request_kw h req kw) k =
     (if hrequest_arg h \<and> k = ''request'' then Some (Req req) else map_of kw k)"
  by (simp add: request_kw_def update_conv')

lemma keys_request_kw:
  "fst ` set (request_kw h req kw) =
     (if hrequest_arg h then insert ''request'' (fst ` set kw) else fst ` set kw)"
  by (simp add: request_kw_def dom_update)

lemma map_of_path_args:
  "map_of (map (\<lambda>(k, v). (k, Val (PyStr v))) items) k =
     (case map_of items k of Some v \<Rightarrow> Some (Val (PyStr v)) | None \<Rightarrow> None)"
  by (induction items) auto

lemma build_kw_Some:
  assumes "source_kw h req = Inr (Some kw0)"
  shows "build_kw h req =
           (Inr (request_kw h req (fst (match_info_loop (match_info req) (named_kw h kw0) []))),
            snd (match_info_loop (match_info req) (named_kw h kw0) []))"
  by (simp add: build_kw_def assms merge_kw_def split: prod.splits)

lemma build_kw_None:
  assumes "source_kw h req = Inr None" and "distinct (map fst (match_info req))"
  shows "build_kw h req =
           (Inr (request_kw h req (map (\<lambda>(k, v). (k, Val (PyStr v))) (match_info req))), [])"
proof -
  have "fst \<circ> (\<lambda>(k, v). (k, Val (PyStr v))) = (fst :: string \<times> string \<Rightarrow> string)"
    by (auto simp: fun_eq_iff)
  with assms(2) show ?thesis
    by (simp add: build_kw_def assms(1) merge_kw_def dict_kwargs_def)
qed

lemma events_call:
  "build_kw h req = (Inr kw, log) \<Longrightarrow>
   Warning w \<in> set (snd (RequestHandler_call h req)) \<longleftrightarrow> Warning w \<in> set log"
  by (auto simp: RequestHandler_call_def split: option.splits)

lemma lower_application_json: "lower ''application/json'' = ''application/json''"
  by code_simp

lemma init_example_f: "RequestHandler_init (example_f body) = Inr (example_f_handler body)"
  by (simp add: RequestHandler_init_def has_request_arg_def has_var_kw_arg_def
      has_named_kw_args_def get_named_kw_args_def get_required_kw_args_def
      example_f_def example_f_handler_def post_def def_def positional_def keyword_only_def)

lemma init_example_update: "RequestHandler_init example_update = Inr example_update_handler"
  by (simp add: RequestHandler_init_def has_request_arg_def has_var_kw_arg_def
      has_named_kw_args_def get_named_kw_args_def get_required_kw_args_def
      example_update_def example_update_handler_def post_def def_def positional_def
      var_keyword_def)

subsection \<open>A round trip\<close>

text \<open>
  Claim C1. Register \<open>f(id, *, title, content=None)\<close>, tagged \<open>POST /post/{id}\<close>, and
  dispatch a request with the JSON body \<open>{"title": "T"}\<close> and the path variable
  \<open>id = "42"\<close>: the handler calls \<open>f\<close> once, with the argument bag
  \<open>{title: "T", id: "42"}\<close> and nothing else, and what \<open>f\<close> returns is the response,
  unchanged.
\<close>

theorem dispatch_round_trip:
  assumes "body [(''title'', Val (PyStr ''T'')), (''id'', Val (PyStr ''42''))] = Inr r"
  shows "\<exists>h. add_route [] (example_f body) = Inr [(''POST'', ''/post/{id}'', h)]
           \<and> RequestHandler_call h (example_dispatch form qs)
               = (Returned r,
                  [Info_call_with_args
                     [(''title'', Val (PyStr ''T'')), (''id'', Val (PyStr ''42''))],
                   Call [(''title'', Val (PyStr ''T'')), (''id'', Val (PyStr ''42''))]])
           \<and> map_of [(''title'', Val (PyStr ''T'')), (''id'', Val (PyStr ''42''))]
               = [''id'' \<mapsto> Val (PyStr ''42''), ''title'' \<mapsto> Val (PyStr ''T'')]"
proof -
  have route: "add_route [] (example_f body)
                 = Inr [(''POST'', ''/post/{id}'', example_f_handler body)]"
    unfolding add_route_def init_example_f by (simp add: example_f_def post_def def_def)
  have src: "source_kw (example_f_handler body) (example_dispatch form qs)
               = Inr (Some [(''title'', Val (PyStr ''T''))])"
    by (simp add: source_kw_def post_kw_def example_dispatch_def example_f_handler_def
        lower_application_json startswith_def)
  have bag: "build_kw (example_f_handler body) (example_dispatch form qs)
               = (Inr [(''title'', Val (PyStr ''T'')), (''id'', Val (PyStr ''42''))], [])"
    unfolding build_kw_def src
    by (simp add: merge_kw_def named_kw_def request_kw_def example_dispatch_def
        example_f_handler_def)
  have call: "fn_call (example_f body) = body"
    by (simp add: example_f_def post_def def_def)
  have "RequestHandler_call (example_f_handler body) (example_dispatch form qs)
          = (Returned r,
             [Info_call_with_args
                [(''title'', Val (PyStr ''T'')), (''id'', Val (PyStr ''42''))],
              Call [(''title'', Val (PyStr ''T'')), (''id'', Val (PyStr ''42''))]])"
    unfolding RequestHandler_call_def bag
    by (simp add: check_required_def invoke_def call assms example_f_handler_def)
  moreover have "map_of [(''title'', Val (PyStr ''T'')), (''id'', Val (PyStr ''42''))]
                   = [''id'' \<mapsto> Val (PyStr ''42''), ''title'' \<mapsto> Val (PyStr ''T'')]"
    by (auto simp: fun_eq_iff)
  ultimately show ?thesis using route by blast
qed

theorem dispatch_round_trip_witness:
  "\<exists>h. add_route [] (example_f (\<lambda>kw. Inr (PyDict [(''saved'', PyBool True)])))
          = Inr [(''POST'', ''/post/{id}'', h)]
      \<and> fst (RequestHandler_call h (example_dispatch (Inr []) []))
          = Returned (PyDict [(''saved'', PyBool True)])"
proof -
  have "(\<lambda>kw::kwargs. Inr (PyDict [(''saved'', PyBool True)]) :: exn + pyval)
          [(''title'', Val (PyStr ''T'')), (''id'', Val (PyStr ''42''))]
        = Inr (PyDict [(''saved'', PyBool True)])"
    by simp
  from dispatch_round_trip [OF this, of "Inr []" "[]"] show ?thesis by auto
qed

subsection \<open>Path variables against body and query fields\<close>

text \<open>
  Claim C2, as stated, fails: with \<open>f(id, *, title, content=None)\<close> on \<open>/post/{id}\<close>, a
  JSON body that has a field \<open>id\<close> beside the path variable \<open>id\<close> gives the bag
  \<open>{title: "T", id: "42"}\<close>, and no warning is logged. The field \<open>id\<close> of the body was
  dropped before the path variables were laid over the bag, since \<open>id\<close> is no
  keyword-only parameter of \<open>f\<close>.
\<close>

theorem duplicate_warning_counterexample:
  "RequestHandler_init (example_f (\<lambda>kw. Inr PyNone)) = Inr (example_f_handler (\<lambda>kw. Inr PyNone))
   \<and> json example_conflict = Inr (PyDict [(''id'', PyStr ''1''), (''title'', PyStr ''T'')])
   \<and> match_info example_conflict = [(''id'', ''42'')]
   \<and> RequestHandler_call (example_f_handler (\<lambda>kw. Inr PyNone)) example_conflict
       = (Returned PyNone,
          [Info_call_with_args [(''title'', Val (PyStr ''T'')), (''id'', Val (PyStr ''42''))],
           Call [(''title'', Val (PyStr ''T'')), (''id'', Val (PyStr ''42''))]])"
proof -
  have src: "source_kw (example_f_handler (\<lambda>kw. Inr PyNone)) example_conflict
               = Inr (Some [(''id'', Val (PyStr ''1'')), (''title'', Val (PyStr ''T''))])"
    by (simp add: source_kw_def post_kw_def example_conflict_def example_f_handler_def
        lower_application_json startswith_def)
  have bag: "build_kw (example_f_handler (\<lambda>kw. Inr PyNone)) example_conflict
               = (Inr [(''title'', Val (PyStr ''T'')), (''id'', Val (PyStr ''42''))], [])"
    unfolding build_kw_def src
    by (simp add: merge_kw_def named_kw_def request_kw_def example_conflict_def
        example_f_handler_def)
  have "RequestHandler_call (example_f_handler (\<lambda>kw. Inr PyNone)) example_conflict
       = (Returned PyNone,
          [Info_call_with_args [(''title'', Val (PyStr ''T'')), (''id'', Val (PyStr ''42''))],
           Call [(''title'', Val (PyStr ''T'')), (''id'', Val (PyStr ''42''))]])"
    unfolding RequestHandler_call_def bag
    by (simp add: check_required_def invoke_def example_f_handler_def example_f_def
        post_def def_def)
  then show ?thesis
    by (simp add: init_example_f) (simp add: example_conflict_def)
qed

text \<open>
  Claim C2, amended. Let the body or query be read without an early exit (\<open>src\<close> is the
  bag of lines 97 to 126, if there is one) and let \<open>k\<close> be a path variable with value
  \<open>v\<close>. Then the final argument bag binds \<open>k\<close> to \<open>v\<close>, whatever the body or query gave
  for \<open>k\<close>; only the name \<open>request\<close> is bound to the request object when the function
  has a request parameter. The duplicate-name warning for \<open>k\<close> is logged exactly when a
  bag was read, it has the key \<open>k\<close>, and the key is not dropped before the overlay: the
  function has a catch-all keyword parameter, or no keyword-only parameter, or \<open>k\<close> is
  one of its keyword-only parameters.
\<close>

theorem path_variable_wins:
  assumes "source_kw h req = Inr src"
    and "distinct (map fst (match_info req))"
    and "(k, v) \<in> set (match_info req)"
  shows "\<exists>kw log. build_kw h req = (Inr kw, log)
           \<and> map_of kw k = (if hrequest_arg h \<and> k = ''request'' then Some (Req req)
                            else Some (Val (PyStr v)))
           \<and> (Warning (''Duplicate arg name in named arg and kw args: '' @ k)
                  \<in> set (snd (RequestHandler_call h req))
                \<longleftrightarrow> (\<exists>kw0. src = Some kw0 \<and> k \<in> fst ` set kw0
                       \<and> (hvar_kw_arg h \<or> named_kw_args h = [] \<or> k \<in> set (named_kw_args h))))"
proof -
  from assms(2,3) have path: "map_of (match_info req) k = Some v" by simp
  show ?thesis
  proof (cases src)
    case None
    with assms(1) have b: "build_kw h req =
           (Inr (request_kw h req (map (\<lambda>(k, v). (k, Val (PyStr v))) (match_info req))), [])"
      using build_kw_None assms(2) by simp
    show ?thesis
      using events_call [OF b] None
      by (simp add: b map_of_request_kw map_of_path_args path)
  next
    case (Some kw0)
    with assms(1) have b: "build_kw h req =
           (Inr (request_kw h req (fst (match_info_loop (match_info req) (named_kw h kw0) []))),
            snd (match_info_loop (match_info req) (named_kw h kw0) []))"
      using build_kw_Some by simp
    from assms(3) have "k \<in> set (map fst (match_info req))" by force
    then have "Warning (''Duplicate arg name in named arg and kw args: '' @ k)
            \<in> set (snd (match_info_loop (match_info req) (named_kw h kw0) []))
          \<longleftrightarrow> k \<in> fst ` set (named_kw h kw0)"
      by (auto simp: log_match_info_loop [OF assms(2)] image_iff)
    then show ?thesis
      using events_call [OF b] Some
      by (simp add: b map_of_request_kw map_of_match_info_loop [OF assms(2)] path keys_named_kw)
  qed
qed

theorem path_variable_wins_witness:
  "\<exists>kw log. build_kw example_update_handler example_conflict = (Inr kw, log)
      \<and> map_of kw ''id'' = Some (Val (PyStr ''42''))
      \<and> Warning ''Duplicate arg name in named arg and kw args: id''
           \<in> set (snd (RequestHandler_call example_update_handler example_conflict))"
proof -
  have src: "source_kw example_update_handler example_conflict
               = Inr (Some [(''id'', Val (PyStr ''1'')), (''title'', Val (PyStr ''T''))])"
    by (simp add: source_kw_def post_kw_def example_conflict_def example_update_handler_def
        lower_application_json startswith_def)
  have path: "distinct (map fst (match_info example_conflict))"
    "(''id'', ''42'') \<in> set (match_info example_conflict)"
    by (simp_all add: example_conflict_def)
  from path_variable_wins [OF src path] show ?thesis
    by (simp add: example_update_handler_def)
qed

subsection \<open>The bag, the events and the check of the required arguments\<close>

lemma map_of_match_info_loop_other:
  "k \<notin> fst ` set items \<Longrightarrow> map_of (fst (match_info_loop items kw log)) k = map_of kw k"
  by (induction items arbitrary: kw log) (auto simp: update_conv')



lemma required_loop_Some:
  "required_loop names kw = Some n \<Longrightarrow> n \<in> set names \<and> n \<notin> fst ` set kw"
  by (induction names) (auto split: if_splits)


lemma check_required_Some:
  "check_required h kw = Some n \<Longrightarrow> n \<in> set (required_kw_args h) \<and> n \<notin> fst ` set kw"
  by (auto simp: check_required_def dest: required_loop_Some split: if_splits)


lemma init_classification:
  assumes "RequestHandler_init fn = Inr h"
  shows "set (required_kw_args h) \<subseteq> set (named_kw_args h)"
    and "hnamed_kw_args h \<longleftrightarrow> named_kw_args h \<noteq> []"
proof -
  from assms obtain found where h: "h = \<lparr>func = fn, hrequest_arg = found,
      hvar_kw_arg = has_var_kw_arg fn, hnamed_kw_args = has_named_kw_args fn,
      named_kw_args = get_named_kw_args fn, required_kw_args = get_required_kw_args fn\<rparr>"
    by (auto simp: RequestHandler_init_def split: sum.splits)
  show "set (required_kw_args h) \<subseteq> set (named_kw_args h)"
    by (auto simp: h get_required_kw_args_def get_named_kw_args_def)
  show "hnamed_kw_args h \<longleftrightarrow> named_kw_args h \<noteq> []"
    by (auto simp: h has_named_kw_args_def get_named_kw_args_def list_ex_iff filter_empty_conv)
qed


lemma init_example_hello: "RequestHandler_init example_hello = Inr example_hello_handler"
  by (simp add: RequestHandler_init_def has_request_arg_def has_var_kw_arg_def
      has_named_kw_args_def get_named_kw_args_def get_required_kw_args_def
      example_hello_def example_hello_handler_def get_def def_def keyword_only_def)

subsection \<open>The query string\<close>

lemma split1_blank: "sep \<notin> set n \<Longrightarrow> split1 sep (n @ [sep]) = [n, []]"
  by (induction n) auto

lemma parse_qsl_Nil: "parse_qsl [] keep = []"
  by (simp add: parse_qsl_def parse_qsl_field_def)

lemma unquote_Nil: "unquote [] = []"
  by (simp add: unquote_def)

lemma parse_qsl_field_blank:
  "CHR ''='' \<notin> set n \<Longrightarrow>
   parse_qsl_field keep (n @ ''='') =
     (if keep then [(unquote (replace (CHR ''+'') (CHR '' '') n), [])] else [])"
  by (simp add: parse_qsl_field_def split1_blank replace_def unquote_Nil)

lemma parse_qsl_member:
  "p \<in> set (split (CHR ''&'') qs) \<Longrightarrow> x \<in> set (parse_qsl_field keep p)
   \<Longrightarrow> x \<in> set (parse_qsl qs keep)"
  by (auto simp: parse_qsl_def)

text \<open>
  What \<open>parse_qs\<close> and the loop over its items make of the pairs of \<open>parse_qsl\<close>:
  \<open>map_of pairs k\<close> is the value of the first pair named \<open>k\<close>.
\<close>

lemma map_of_first:
  "map_of pairs k = (case map snd (filter (\<lambda>p. fst p = k) pairs) of [] \<Rightarrow> None | v # _ \<Rightarrow> Some v)"
  by (induction pairs) auto

lemma map_of_parse_qs_loop:
  "map_of (parse_qs_loop pairs res) k =
     (case map_of res k of
        Some ws \<Rightarrow> Some (ws @ map snd (filter (\<lambda>p. fst p = k) pairs))
      | None \<Rightarrow> (case map snd (filter (\<lambda>p. fst p = k) pairs) of
                   [] \<Rightarrow> None | v # vs \<Rightarrow> Some (v # vs)))"
proof (induction pairs arbitrary: res)
  case Nil
  then show ?case by (simp split: option.splits)
next
  case (Cons a pairs)
  obtain n v where a: "a = (n, v)" by (cases a)
  show ?case
    by (simp add: a Cons.IH update_conv' split: option.splits list.splits)
qed

lemma distinct_parse_qs_loop:
  "distinct (map fst res) \<Longrightarrow> distinct (map fst (parse_qs_loop pairs res))"
proof (induction pairs arbitrary: res)
  case Nil
  then show ?case by simp
next
  case (Cons a pairs)
  obtain n v where a: "a = (n, v)" by (cases a)
  from Cons.prems show ?case
    by (auto simp: a intro!: Cons.IH distinct_update split: option.splits)
qed

lemma values_update: "snd ` set (AList.update k v al) \<subseteq> insert v (snd ` set al)"
  by (induction al) auto

lemma nonempty_parse_qs_loop:
  "[] \<notin> snd ` set res \<Longrightarrow> [] \<notin> snd ` set (parse_qs_loop pairs res)"
proof (induction pairs arbitrary: res)
  case Nil
  then show ?case by simp
next
  case (Cons a pairs)
  obtain n v where a: "a = (n, v)" by (cases a)
  have upd: "\<And>ws. ws \<noteq> [] \<Longrightarrow> [] \<notin> snd ` set (AList.update n ws res)"
    using Cons.prems values_update [of n _ res] by blast
  show ?case
    by (auto simp: a intro!: Cons.IH upd split: option.splits)
qed

lemma query_loop_ok:
  "distinct (map fst items) \<Longrightarrow> [] \<notin> snd ` set items \<Longrightarrow>
   \<exists>kw'. query_loop items kw = Inr kw'
      \<and> (\<forall>k. map_of kw' k =
            (case map_of items k of Some vs \<Rightarrow> Some (Val (PyStr (hd vs))) | None \<Rightarrow> map_of kw k))"
proof (induction items arbitrary: kw)
  case Nil
  then show ?case by simp
next
  case (Cons a items)
  obtain n vs where a: "a = (n, vs)" by (cases a)
  from Cons.prems a obtain v0 vs' where vs: "vs = v0 # vs'"
    by (cases vs) auto
  from Cons.prems a have notin: "map_of items n = None"
    by (simp add: map_of_eq_None_iff)
  from Cons.prems have "distinct (map fst items)" "[] \<notin> snd ` set items" by auto
  from Cons.IH [OF this, of "AList.update n (Val (PyStr v0)) kw"]
  obtain kw' where kw': "query_loop items (AList.update n (Val (PyStr v0)) kw) = Inr kw'"
    "\<And>k. map_of kw' k =
       (case map_of items k of Some vs \<Rightarrow> Some (Val (PyStr (hd vs)))
        | None \<Rightarrow> map_of (AList.update n (Val (PyStr v0)) kw) k)"
    by blast
  show ?case
    using notin by (auto simp: a vs kw' update_conv' split: option.splits)
qed

lemma get_kw_query:
  assumes "query_string req \<noteq> []"
  shows "\<exists>kw. get_kw req kw0 = Inr (Some kw)
           \<and> (\<forall>k. map_of kw k =
                 map_option (\<lambda>v. Val (PyStr v)) (map_of (parse_qsl (query_string req) True) k))"
proof -
  let ?pairs = "parse_qsl (query_string req) True"
  have d: "distinct (map fst (parse_qs_loop ?pairs []))"
    by (rule distinct_parse_qs_loop) simp
  have ne: "[] \<notin> snd ` set (parse_qs_loop ?pairs [])"
    by (rule nonempty_parse_qs_loop) simp
  from query_loop_ok [OF d ne, of "[]"] obtain kw where
    kw: "query_loop (parse_qs_loop ?pairs []) [] = Inr kw"
    "\<forall>k. map_of kw k =
       (case map_of (parse_qs_loop ?pairs []) k of
          Some vs \<Rightarrow> Some (Val (PyStr (hd vs))) | None \<Rightarrow> map_of [] k)"
    by blast
  have "map_of kw k = map_option (\<lambda>v. Val (PyStr v)) (map_of ?pairs k)" for k
    by (simp add: kw(2) map_of_parse_qs_loop map_of_first [of ?pairs k] split: list.splits)
  with kw(1) show ?thesis
    by (simp add: get_kw_def assms parse_qs_def)
qed

lemma source_kw_GET:
  assumes "http_method req = ''GET''"
    and "hvar_kw_arg h \<or> hnamed_kw_args h \<or> required_kw_args h \<noteq> []"
  shows "source_kw h req = get_kw req None"
  using assms by (auto simp: source_kw_def)

text \<open>
  Claim C3, as stated, fails. \<open>page(k)\<close> takes no keyword arguments, so for the query
  string \<open>k=1&k=2\<close> the handler does not read the query string and binds nothing for
  \<open>k\<close>. \<open>item(*, k)\<close> on \<open>/item/{k}\<close> does read it, but for the request to \<open>/item/9\<close>
  with the same query string the path variable is laid over the bag, and the argument
  bound for \<open>k\<close> is \<open>"9"\<close>.
\<close>

theorem first_query_value_counterexample:
  "RequestHandler_init example_page = Inr example_page_handler
   \<and> parse_qsl ''k=1&k=2'' True = [(''k'', ''1''), (''k'', ''2'')]
   \<and> build_kw example_page_handler (example_get ''k=1&k=2'' []) = (Inr [], [])
   \<and> RequestHandler_init example_item = Inr example_item_handler
   \<and> build_kw example_item_handler (example_get ''k=1&k=2'' [(''k'', ''9'')])
       = (Inr [(''k'', Val (PyStr ''9''))],
          [Warning ''Duplicate arg name in named arg and kw args: k''])"
proof -
  have page: "RequestHandler_init example_page = Inr example_page_handler"
    by (simp add: RequestHandler_init_def has_request_arg_def has_var_kw_arg_def
      has_named_kw_args_def get_named_kw_args_def get_required_kw_args_def
      example_page_def example_page_handler_def get_def def_def positional_def)
  have item: "RequestHandler_init example_item = Inr example_item_handler"
    by (simp add: RequestHandler_init_def has_request_arg_def has_var_kw_arg_def
      has_named_kw_args_def get_named_kw_args_def get_required_kw_args_def
      example_item_def example_item_handler_def get_def def_def keyword_only_def)
  have pairs: "parse_qsl ''k=1&k=2'' True = [(''k'', ''1''), (''k'', ''2'')]"
    by code_simp
  have bag_page: "build_kw example_page_handler (example_get ''k=1&k=2'' []) = (Inr [], [])"
    by (simp add: build_kw_def source_kw_def merge_kw_def dict_kwargs_def request_kw_def
        example_page_handler_def example_get_def)
  have src: "source_kw example_item_handler (example_get ''k=1&k=2'' [(''k'', ''9'')])
               = Inr (Some [(''k'', Val (PyStr ''1''))])"
    by (simp add: source_kw_def get_kw_def parse_qs_def pairs example_item_handler_def
        example_get_def)
  have bag_item: "build_kw example_item_handler (example_get ''k=1&k=2'' [(''k'', ''9'')])
       = (Inr [(''k'', Val (PyStr ''9''))],
          [Warning ''Duplicate arg name in named arg and kw args: k''])"
    unfolding build_kw_def src
    by (simp add: merge_kw_def named_kw_def request_kw_def example_item_handler_def
        example_get_def)
  from page item pairs bag_page bag_item show ?thesis by simp
qed

text \<open>
  Claim C3, amended. Take a GET request to a function that takes keyword arguments
  (it has a catch-all keyword parameter or keyword-only parameters), and let \<open>(k, v)\<close>
  be the first pair named \<open>k\<close> that the query string holds; \<open>k\<close> may come again in
  \<open>after\<close>. The bag read from the query string binds \<open>k\<close> to \<open>v\<close>: the later values of
  \<open>k\<close> are discarded. This is the argument bound for \<open>k\<close> in the final bag as well,
  unless the later steps drop or replace the name \<open>k\<close> as a whole: it is no
  keyword-only parameter of a function without catch-all, it is a path variable too,
  or it is the injected \<open>request\<close>.
\<close>

theorem first_query_value_wins:
  assumes "http_method req = ''GET''"
    and "hvar_kw_arg h \<or> hnamed_kw_args h \<or> required_kw_args h \<noteq> []"
    and "parse_qsl (query_string req) True = before @ (k, v) # after"
    and "k \<notin> fst ` set before"
  shows "\<exists>kw. source_kw h req = Inr (Some kw) \<and> map_of kw k = Some (Val (PyStr v))
     \<and> (\<exists>kw' log. build_kw h req = (Inr kw', log)
          \<and> (k \<notin> fst ` set (match_info req) \<and> \<not> (hrequest_arg h \<and> k = ''request'')
               \<and> (hvar_kw_arg h \<or> named_kw_args h = [] \<or> k \<in> set (named_kw_args h))
              \<longrightarrow> map_of kw' k = Some (Val (PyStr v))))"
proof -
  from assms(3) have qs: "query_string req \<noteq> []"
    using parse_qsl_Nil [of True] by auto
  from assms(4) have "map_of before k = None" by (simp add: map_of_eq_None_iff)
  then have first: "map_of (parse_qsl (query_string req) True) k = Some v"
    by (simp add: assms(3) map_of_append map_add_def)
  from get_kw_query [OF qs, of None] obtain kw where
    kw: "get_kw req None = Inr (Some kw)"
    "\<forall>k. map_of kw k
           = map_option (\<lambda>v. Val (PyStr v)) (map_of (parse_qsl (query_string req) True) k)"
    by blast
  have src: "source_kw h req = Inr (Some kw)"
    by (simp add: source_kw_GET [OF assms(1,2)] kw(1))
  have bound: "map_of kw k = Some (Val (PyStr v))"
    by (simp add: kw(2) first)
  show ?thesis
    by (simp add: src bound build_kw_Some [OF src] map_of_request_kw
        map_of_match_info_loop_other map_of_named_kw)
qed

theorem first_query_value_wins_witness:
  "parse_qsl ''k=1&k=2'' True = [(''k'', ''1''), (''k'', ''2'')]
   \<and> (\<exists>kw. source_kw example_search_handler (example_get ''k=1&k=2'' []) = Inr (Some kw)
          \<and> map_of kw ''k'' = Some (Val (PyStr ''1'')))
   \<and> (\<exists>kw' log. build_kw example_search_handler (example_get ''k=1&k=2'' []) = (Inr kw', log)
          \<and> map_of kw' ''k'' = Some (Val (PyStr ''1'')))"
proof -
  have pairs: "parse_qsl ''k=1&k=2'' True = [(''k'', ''1''), (''k'', ''2'')]"
    by code_simp
  have h: "http_method (example_get ''k=1&k=2'' []) = ''GET''"
    "hvar_kw_arg example_search_handler \<or> hnamed_kw_args example_search_handler
       \<or> required_kw_args example_search_handler \<noteq> []"
    "parse_qsl (query_string (example_get ''k=1&k=2'' [])) True
       = [] @ (''k'', ''1'') # [(''k'', ''2'')]"
    "''k'' \<notin> fst ` set ([] :: (string \<times> string) list)"
    by (simp_all add: example_get_def example_search_handler_def pairs)
  have kept: "''k'' \<notin> fst ` set (match_info (example_get ''k=1&k=2'' []))
      \<and> \<not> (hrequest_arg example_search_handler \<and> ''k'' = ''request'')
      \<and> (hvar_kw_arg example_search_handler \<or> named_kw_args example_search_handler = []
           \<or> ''k'' \<in> set (named_kw_args example_search_handler))"
    by (simp add: example_get_def example_search_handler_def)
  from first_query_value_wins [OF h] kept pairs show ?thesis
    by blast
qed

text \<open>
  Claim C10, as stated, fails, with \<open>hello(*, name, greeting='Hi')\<close>. For the query
  string \<open>name=x&name=\<close> the key \<open>name\<close> has a blank value in its second field, and the
  bag binds it to \<open>"x"\<close>, the value of the first. For \<open>k=&name=x\<close> the key \<open>k\<close> has a
  blank value, and the bag has no key \<open>k\<close>: \<open>k\<close> is no keyword-only parameter of
  \<open>hello\<close>.
\<close>

theorem blank_query_value_counterexample:
  "RequestHandler_init example_hello = Inr example_hello_handler
   \<and> parse_qsl ''name=x&name='' True = [(''name'', ''x''), (''name'', [])]
   \<and> build_kw example_hello_handler (example_get ''name=x&name='' [])
       = (Inr [(''name'', Val (PyStr ''x''))], [])
   \<and> parse_qsl ''k=&name=x'' True = [(''k'', []), (''name'', ''x'')]
   \<and> build_kw example_hello_handler (example_get ''k=&name=x'' [])
       = (Inr [(''name'', Val (PyStr ''x''))], [])"
proof -
  have pairs1: "parse_qsl ''name=x&name='' True = [(''name'', ''x''), (''name'', [])]"
    by code_simp
  have pairs2: "parse_qsl ''k=&name=x'' True = [(''k'', []), (''name'', ''x'')]"
    by code_simp
  have src1: "source_kw example_hello_handler (example_get ''name=x&name='' [])
                = Inr (Some [(''name'', Val (PyStr ''x''))])"
    by (simp add: source_kw_def get_kw_def parse_qs_def pairs1 example_hello_handler_def
        example_get_def)
  have src2: "source_kw example_hello_handler (example_get ''k=&name=x'' [])
                = Inr (Some [(''k'', Val (PyStr [])), (''name'', Val (PyStr ''x''))])"
    by (simp add: source_kw_def get_kw_def parse_qs_def pairs2 example_hello_handler_def
        example_get_def)
  have bag1: "build_kw example_hello_handler (example_get ''name=x&name='' [])
                = (Inr [(''name'', Val (PyStr ''x''))], [])"
    unfolding build_kw_def src1
    by (simp add: merge_kw_def named_kw_def request_kw_def example_hello_handler_def
        example_get_def)
  have bag2: "build_kw example_hello_handler (example_get ''k=&name=x'' [])
                = (Inr [(''name'', Val (PyStr ''x''))], [])"
    unfolding build_kw_def src2
    by (simp add: merge_kw_def named_kw_def request_kw_def example_hello_handler_def
        example_get_def)
  from init_example_hello pairs1 pairs2 bag1 bag2 show ?thesis by simp
qed

text \<open>
  Claim C10, amended. Take a GET request to a function that takes keyword arguments,
  and let its query string have the field \<open>n=\<close>, a name with a blank value.
  \<open>parse_qsl\<close> is called with \<open>keep_blank_values\<close> true, so the pair of the name and
  the empty string is kept; the bag read from the query string has the name as a key,
  bound to the empty string when this field is the first one with that name (and to
  the value of the first one otherwise). When the name is a required keyword-only
  parameter, the final argument bag has the key too, and the check of the required
  arguments does not report the name. The final bag binds the name to the empty
  string when the field is the first with that name and the later steps neither drop
  nor replace the name: it is a keyword-only parameter or the function has a
  catch-all, it is no path variable, and it is not the injected \<open>request\<close>.
\<close>

theorem blank_query_value_kept:
  assumes "RequestHandler_init fn = Inr h"
    and "http_method req = ''GET''"
    and "hvar_kw_arg h \<or> hnamed_kw_args h \<or> required_kw_args h \<noteq> []"
    and "n @ ''='' \<in> set (split (CHR ''&'') (query_string req))"
    and "CHR ''='' \<notin> set n"
    and "name = unquote (replace (CHR ''+'') (CHR '' '') n)"
  shows "(name, []) \<in> set (parse_qsl (query_string req) True)
     \<and> (\<exists>kw. source_kw h req = Inr (Some kw) \<and> name \<in> fst ` set kw
          \<and> map_of kw name
              = map_option (\<lambda>v. Val (PyStr v)) (map_of (parse_qsl (query_string req) True) name)
          \<and> (map_of (parse_qsl (query_string req) True) name = Some []
                \<longrightarrow> map_of kw name = Some (Val (PyStr [])))
          \<and> (\<exists>kw' log. build_kw h req = (Inr kw', log)
                \<and> (name \<in> set (required_kw_args h)
                    \<longrightarrow> name \<in> fst ` set kw' \<and> check_required h kw' \<noteq> Some name)
                \<and> (map_of (parse_qsl (query_string req) True) name = Some []
                     \<and> (hvar_kw_arg h \<or> named_kw_args h = [] \<or> name \<in> set (named_kw_args h))
                     \<and> name \<notin> fst ` set (match_info req)
                     \<and> \<not> (hrequest_arg h \<and> name = ''request'')
                    \<longrightarrow> map_of kw' name = Some (Val (PyStr [])))))"
proof -
  let ?pairs = "parse_qsl (query_string req) True"
  have "(name, []) \<in> set (parse_qsl_field True (n @ ''=''))"
    by (simp add: parse_qsl_field_blank [OF assms(5)] assms(6))
  with assms(4) have pair: "(name, []) \<in> set ?pairs"
    by (rule parse_qsl_member)
  then have qs: "query_string req \<noteq> []"
    using parse_qsl_Nil [of True] by auto
  from get_kw_query [OF qs, of None] obtain kw where
    kw: "get_kw req None = Inr (Some kw)"
    "\<forall>k. map_of kw k = map_option (\<lambda>v. Val (PyStr v)) (map_of ?pairs k)"
    by blast
  have src: "source_kw h req = Inr (Some kw)"
    by (simp add: source_kw_GET [OF assms(2,3)] kw(1))
  from pair have "map_of ?pairs name \<noteq> None"
    by (simp add: map_of_eq_None_iff) force
  then have "map_of kw name \<noteq> None" by (simp add: kw(2))
  then have key: "name \<in> fst ` set kw" by (simp add: map_of_eq_None_iff)
  let ?kw' = "request_kw h req (fst (match_info_loop (match_info req) (named_kw h kw) []))"
  have required: "name \<in> fst ` set ?kw' \<and> check_required h ?kw' \<noteq> Some name"
    if name: "name \<in> set (required_kw_args h)"
  proof -
    from name init_classification(1) [OF assms(1)]
    have "name \<in> set (named_kw_args h)" by auto
    with key have "name \<in> fst ` set ?kw'"
      by (simp add: keys_request_kw keys_match_info_loop keys_named_kw)
    then show ?thesis
      using check_required_Some [of h ?kw' name] by blast
  qed
  have blank: "map_of kw name = Some (Val (PyStr []))"
    if "map_of ?pairs name = Some []"
    using that by (simp add: kw(2))
  have blank': "map_of ?kw' name = Some (Val (PyStr []))"
    if "map_of ?pairs name = Some []"
      "hvar_kw_arg h \<or> named_kw_args h = [] \<or> name \<in> set (named_kw_args h)"
      "name \<notin> fst ` set (match_info req)"
      "\<not> (hrequest_arg h \<and> name = ''request'')"
    using that blank
    by (simp add: map_of_request_kw map_of_match_info_loop_other map_of_named_kw)
  have first: "map_of kw name = map_option (\<lambda>v. Val (PyStr v)) (map_of ?pairs name)"
    by (simp add: kw(2))
  from pair src key first blank required blank' show ?thesis
    by (simp add: build_kw_Some [OF src])
qed

theorem blank_query_value_kept_witness:
  "(''name'', []) \<in> set (parse_qsl ''name='' True)
   \<and> parse_qsl ''name='' False = []
   \<and> (\<exists>kw' log. build_kw example_hello_handler (example_get ''name='' []) = (Inr kw', log)
         \<and> map_of kw' ''name'' = Some (Val (PyStr []))
         \<and> check_required example_hello_handler kw' \<noteq> Some ''name'')"
proof -
  have omitted: "parse_qsl ''name='' False = []" by code_simp
  have first: "map_of (parse_qsl ''name='' True) ''name'' = Some []" by code_simp
  have name: "''name'' = unquote (replace (CHR ''+'') (CHR '' '') ''name'')" by code_simp
  have h: "http_method (example_get ''name='' []) = ''GET''"
    "hvar_kw_arg example_hello_handler \<or> hnamed_kw_args example_hello_handler
       \<or> required_kw_args example_hello_handler \<noteq> []"
    "''name'' @ ''='' \<in> set (split (CHR ''&'') (query_string (example_get ''name='' [])))"
    "CHR ''='' \<notin> set ''name''"
    by (simp_all add: example_get_def example_hello_handler_def)
  have other: "''name'' \<in> set (required_kw_args example_hello_handler)
      \<and> map_of (parse_qsl (query_string (example_get ''name='' [])) True) ''name''
                 = Some []
      \<and> (hvar_kw_arg example_hello_handler \<or> named_kw_args example_hello_handler = []
           \<or> ''name'' \<in> set (named_kw_args example_hello_handler))
      \<and> ''name'' \<notin> fst ` set (match_info (example_get ''name='' []))
      \<and> \<not> (hrequest_arg example_hello_handler \<and> ''name'' = ''request'')"
    using first by (simp add: example_get_def example_hello_handler_def)
  have qs: "query_string (example_get ''name='' []) = ''name=''"
    by (simp add: example_get_def)
  from blank_query_value_kept [OF init_example_hello h name] other omitted show ?thesis
    unfolding qs by blast
qed

subsection \<open>A JSON body\<close>





subsection \<open>Keys the function does not name\<close>

text \<open>
  Claim C8. When a bag \<open>kw0\<close> was read from body or query, and the function has no
  catch-all keyword parameter but has keyword-only parameters, the bag that goes on
  to the overlay of the path variables is \<open>named_kw h kw0\<close>: its keys are the keys of
  \<open>kw0\<close> that are keyword-only parameters, with their values; every other key of \<open>kw0\<close>
  is gone, without an event or an error. The final bag has no key besides
  keyword-only parameters, path variables and \<open>request\<close>.
\<close>

theorem unnamed_kw_dropped:
  assumes "source_kw h req = Inr (Some kw0)"
    and "\<not> hvar_kw_arg h" and "named_kw_args h \<noteq> []"
  shows "merge_kw h req (Some kw0)
           = (Inr (fst (match_info_loop (match_info req) (named_kw h kw0) [])),
              snd (match_info_loop (match_info req) (named_kw h kw0) []))
       \<and> fst ` set (named_kw h kw0) = fst ` set kw0 \<inter> set (named_kw_args h)
       \<and> (\<forall>k \<in> set (named_kw_args h). map_of (named_kw h kw0) k = map_of kw0 k)
       \<and> (\<exists>kw log. build_kw h req = (Inr kw, log)
             \<and> fst ` set kw \<subseteq> set (named_kw_args h) \<union> fst ` set (match_info req)
                               \<union> {''request''})"
proof -
  have keys: "fst ` set (named_kw h kw0) = fst ` set kw0 \<inter> set (named_kw_args h)"
    using assms(2,3) by (simp add: named_kw_def keys_copy_named Int_commute)
  have "fst ` set (request_kw h req (fst (match_info_loop (match_info req) (named_kw h kw0) [])))
          \<subseteq> set (named_kw_args h) \<union> fst ` set (match_info req) \<union> {''request''}"
    by (auto simp: keys_request_kw keys_match_info_loop keys)
  then show ?thesis
    using keys by (simp add: merge_kw_def case_prod_beta map_of_named_kw build_kw_Some [OF assms(1)])
qed

theorem unnamed_kw_dropped_witness:
  "named_kw (example_f_handler (\<lambda>kw. Inr PyNone))
     [(''id'', Val (PyStr ''1'')), (''title'', Val (PyStr ''T''))]
     = [(''title'', Val (PyStr ''T''))]
   \<and> fst ` set (named_kw (example_f_handler (\<lambda>kw. Inr PyNone))
        [(''id'', Val (PyStr ''1'')), (''title'', Val (PyStr ''T''))])
     = fst ` set [(''id'', Val (PyStr ''1'')), (''title'', Val (PyStr ''T''))]
         \<inter> set [''title'', ''content'']"
proof -
  have src: "source_kw (example_f_handler (\<lambda>kw. Inr PyNone)) example_conflict
               = Inr (Some [(''id'', Val (PyStr ''1'')), (''title'', Val (PyStr ''T''))])"
    by (simp add: source_kw_def post_kw_def example_conflict_def example_f_handler_def
        lower_application_json startswith_def)
  have h: "\<not> hvar_kw_arg (example_f_handler (\<lambda>kw. Inr PyNone))"
    "named_kw_args (example_f_handler (\<lambda>kw. Inr PyNone)) \<noteq> []"
    by (simp_all add: example_f_handler_def)
  have named: "named_kw_args (example_f_handler (\<lambda>kw. Inr PyNone)) = [''title'', ''content'']"
    by (simp add: example_f_handler_def)
  have eval: "named_kw (example_f_handler (\<lambda>kw. Inr PyNone))
     [(''id'', Val (PyStr ''1'')), (''title'', Val (PyStr ''T''))]
     = [(''title'', Val (PyStr ''T''))]"
    by (simp add: named_kw_def example_f_handler_def)
  from unnamed_kw_dropped [OF src h] have
    "fst ` set (named_kw (example_f_handler (\<lambda>kw. Inr PyNone))
        [(''id'', Val (PyStr ''1'')), (''title'', Val (PyStr ''T''))])
     = fst ` set [(''id'', Val (PyStr ''1'')), (''title'', Val (PyStr ''T''))]
         \<inter> set (named_kw_args (example_f_handler (\<lambda>kw. Inr PyNone)))"
    by blast
  with eval named show ?thesis by simp
qed

subsection \<open>Required arguments\<close>



subsection \<open>Errors of the target function\<close>

text \<open>
  Claim C6. When \<open>__call__\<close> calls the target function with the bag \<open>kw\<close>: an
  \<open>APIError\<close> raised by the function is caught and the response is the dict of its
  \<open>error\<close>, \<open>data\<close> and \<open>message\<close>, returned as a value; an exception that is no
  \<open>APIError\<close> leaves \<open>__call__\<close> as it is; a value returned by the function is returned
  unchanged.
\<close>

theorem only_APIError_caught:
  assumes "build_kw h req = (Inr kw, log)" and "check_required h kw = None"
  shows "(fn_call (func h) kw = Inl (APIError e d m) \<longrightarrow>
            RequestHandler_call h req
              = (Returned (PyDict [(''error'', e), (''data'', d), (''message'', m)]),
                 log @ [Info_call_with_args kw, Call kw]))
       \<and> (fn_call (func h) kw = Inl x \<and> \<not> is_APIError x \<longrightarrow>
            RequestHandler_call h req = (Raised x, log @ [Info_call_with_args kw, Call kw]))
       \<and> (fn_call (func h) kw = Inr r \<longrightarrow>
            RequestHandler_call h req = (Returned r, log @ [Info_call_with_args kw, Call kw]))"
  by (cases x) (simp_all add: RequestHandler_call_def assms invoke_def)

theorem only_APIError_caught_witness:
  "RequestHandler_call
     (example_raises (APIError (PyStr ''403'') (PyStr ''forbidden'') (PyStr ''no access'')))
     (example_get [] [])
     = (Returned (PyDict [(''error'', PyStr ''403''), (''data'', PyStr ''forbidden''),
                          (''message'', PyStr ''no access'')]),
        [Info_call_with_args [], Call []])
   \<and> RequestHandler_call (example_raises (Exception ''KeyError'' ''id'')) (example_get [] [])
     = (Raised (Exception ''KeyError'' ''id''), [Info_call_with_args [], Call []])"
proof -
  have b: "build_kw (example_raises e) (example_get [] []) = (Inr [], [])"
    "check_required (example_raises e) [] = None"
    "fn_call (func (example_raises e)) [] = Inl e" for e
    by (simp_all add: build_kw_def source_kw_def merge_kw_def dict_kwargs_def request_kw_def
        example_raises_def example_get_def check_required_def get_def def_def)
  have "\<not> is_APIError (Exception ''KeyError'' ''id'')" by simp
  with only_APIError_caught [OF b(1,2),
      of "APIError (PyStr ''403'') (PyStr ''forbidden'') (PyStr ''no access'')"
         "PyStr ''403''" "PyStr ''forbidden''" "PyStr ''no access''"]
    only_APIError_caught [OF b(1,2), of "Exception ''KeyError'' ''id''" _ _ _
         "Exception ''KeyError'' ''id''"]
    b(3)
  show ?thesis by simp
qed

end
